theory Spec2Isabelle
  imports Main "HOL-Library.Word"
begin

unbundle bit_operations_syntax

section \<open>The SBI ecall library of the RISC-V processor package\<close>

text \<open>
  A shallow embedding of \<^verbatim>\<open>RiscVEdk2SbiLib.c\<close> and of the call macros of
  \<^verbatim>\<open>RiscVEdk2SbiLib.h\<close>. The target is a 64-bit RISC-V hart: \<^verbatim>\<open>UINTN\<close>,
  \<^verbatim>\<open>INTN\<close>, \<^verbatim>\<open>long\<close>, \<^verbatim>\<open>uintptr_t\<close> and every pointer are 64-bit
  machine words. A conversion between these types keeps the bits, so all of them are
  the one type \<open>UINTN\<close>; \<open>-1\<close> is the word with all bits set, which is what the
  \<^verbatim>\<open>case SBI_ERR_FAILED:\<close> label of a \<^verbatim>\<open>switch\<close> over a \<^verbatim>\<open>UINTN\<close> compares with.
\<close>

subsection \<open>Data\<close>

type_synonym UINTN = "64 word"

text \<open>The values of \<^verbatim>\<open>EFI_STATUS\<close> that the library returns (declared in \<^verbatim>\<open>Uefi.h\<close>).\<close>

datatype EFI_STATUS =
    EFI_SUCCESS
  | EFI_LOAD_ERROR
  | EFI_INVALID_PARAMETER
  | EFI_UNSUPPORTED
  | EFI_DEVICE_ERROR
  | EFI_ACCESS_DENIED
  | EFI_ALREADY_STARTED

text \<open>The way in which a call stops instead of returning to its caller.\<close>

datatype fault =
    ASSERT_FAILED

text \<open>\<^verbatim>\<open>struct sbiret { long error; long value; }\<close>\<close>

record sbiret =
  sbiret_error :: UINTN
  sbiret_value :: UINTN

text \<open>The eight registers of the trap convention.\<close>

record regs =
  a0 :: UINTN
  a1 :: UINTN
  a2 :: UINTN
  a3 :: UINTN
  a4 :: UINTN
  a5 :: UINTN
  a6 :: UINTN
  a7 :: UINTN

text \<open>
  The machine as the library sees it: the memory (the word stored at each address; the
  output parameters and the structures of the firmware extension live there), the traps
  issued so far, oldest first, and the private state of the SBI runtime.
\<close>

record 'rt machine =
  memory :: "UINTN \<Rightarrow> UINTN"
  ecalls :: "regs list"
  runtime :: 'rt

text \<open>
  The trap handler belongs to the wrapped runtime, not to this library: it is a
  parameter of every function that traps. It receives the registers, the memory (the
  \<^verbatim>\<open>"memory"\<close> clobber of the \<^verbatim>\<open>asm\<close> statement) and its own state, and
  leaves new registers, memory and state.
\<close>

type_synonym 'rt ecall =
  "regs \<Rightarrow> (UINTN \<Rightarrow> UINTN) \<Rightarrow> 'rt \<Rightarrow> regs \<times> (UINTN \<Rightarrow> UINTN) \<times> 'rt"

subsection \<open>Assertions\<close>

text \<open>
  Modelled from the spec: the \<^verbatim>\<open>ASSERT\<close> macro comes from \<^verbatim>\<open>DebugLib.h\<close>,
  which is not among these sources. The specification treats a failed assertion as
  fatal: the call stops there and nothing after the assertion runs.
\<close>

definition ASSERT :: "bool \<Rightarrow> fault + unit" where
  "ASSERT c = (if c then Inr () else Inl ASSERT_FAILED)"

subsection \<open>Status codes (\<^verbatim>\<open>RiscVOpensbi.h\<close>)\<close>

definition SBI_SUCCESS :: UINTN where "SBI_SUCCESS = 0"
definition SBI_ERR_FAILED :: UINTN where "SBI_ERR_FAILED = - 1"
definition SBI_ERR_NOT_SUPPORTED :: UINTN where "SBI_ERR_NOT_SUPPORTED = - 2"
definition SBI_ERR_INVALID_PARAM :: UINTN where "SBI_ERR_INVALID_PARAM = - 3"
definition SBI_ERR_DENIED :: UINTN where "SBI_ERR_DENIED = - 4"
definition SBI_ERR_INVALID_ADDRESS :: UINTN where "SBI_ERR_INVALID_ADDRESS = - 5"
definition SBI_ERR_ALREADY_AVAILABLE :: UINTN where "SBI_ERR_ALREADY_AVAILABLE = - 6"

lemmas sbi_status_defs =
  SBI_SUCCESS_def SBI_ERR_FAILED_def SBI_ERR_NOT_SUPPORTED_def SBI_ERR_INVALID_PARAM_def
  SBI_ERR_DENIED_def SBI_ERR_INVALID_ADDRESS_def SBI_ERR_ALREADY_AVAILABLE_def

subsection \<open>\<^verbatim>\<open>TranslateError\<close>\<close>

text \<open>
  The \<^verbatim>\<open>switch\<close> of the source, one label after the other; the \<^verbatim>\<open>default\<close>
  label is \<^verbatim>\<open>ASSERT (FALSE); return EFI_UNSUPPORTED;\<close>.
\<close>

definition TranslateError :: "UINTN \<Rightarrow> fault + EFI_STATUS" where
  "TranslateError SbiError =
     (if SbiError = SBI_SUCCESS then Inr EFI_SUCCESS
      else if SbiError = SBI_ERR_FAILED then Inr EFI_DEVICE_ERROR
      else if SbiError = SBI_ERR_NOT_SUPPORTED then Inr EFI_UNSUPPORTED
      else if SbiError = SBI_ERR_INVALID_PARAM then Inr EFI_INVALID_PARAMETER
      else if SbiError = SBI_ERR_DENIED then Inr EFI_ACCESS_DENIED
      else if SbiError = SBI_ERR_INVALID_ADDRESS then Inr EFI_LOAD_ERROR
      else if SbiError = SBI_ERR_ALREADY_AVAILABLE then Inr EFI_ALREADY_STARTED
      else (case ASSERT False of
              Inl f \<Rightarrow> Inl f
            | Inr _ \<Rightarrow> Inr EFI_UNSUPPORTED))"

subsection \<open>\<^verbatim>\<open>SbiCall\<close> and the macros \<^verbatim>\<open>SbiCall0\<close> to \<^verbatim>\<open>SbiCall6\<close>\<close>

text \<open>
  Two things that the source leaves to the C compiler.

  The \<^verbatim>\<open>asm\<close> statement of \<^verbatim>\<open>SbiCall\<close> declares \<^verbatim>\<open>a0\<close> as its only
  output (\<^verbatim>\<open>"+r" (a0)\<close>) and \<^verbatim>\<open>a1\<close> among its inputs. What the variable
  \<^verbatim>\<open>a1\<close> holds in \<^verbatim>\<open>{ a0, a1 }\<close> after the statement is therefore the
  compiler's choice: the register as the trap left it (\<open>rereads_a1\<close>), or the value
  loaded before the trap, \<^verbatim>\<open>arg1\<close>, which an input operand is taken to keep.

  \<^verbatim>\<open>SbiVendorCall\<close> writes several \<^verbatim>\<open>VA_ARG\<close> expressions in one argument
  list, and C does not fix the order in which the arguments of a call are evaluated:
  in a list of \<open>n\<close> such expressions, the \<open>i\<close>-th from the left is the
  \<open>va_arg_order n i\<close>-th to be evaluated and so takes the variable argument of that
  number (counted from 0).
\<close>

record compiler =
  rereads_a1 :: bool
  va_arg_order :: "nat \<Rightarrow> nat \<Rightarrow> nat"

text \<open>
  \<^verbatim>\<open>SbiCall\<close> loads \<^verbatim>\<open>a0\<close> to \<^verbatim>\<open>a5\<close> with the arguments, \<^verbatim>\<open>a6\<close> with
  the function id and \<^verbatim>\<open>a7\<close> with the extension id, executes \<^verbatim>\<open>ecall\<close> and
  returns \<^verbatim>\<open>{ a0, a1 }\<close>: \<^verbatim>\<open>a0\<close> as the trap left it, \<^verbatim>\<open>a1\<close> as the
  compiler reads it.
\<close>

definition SbiCall ::
  "compiler \<Rightarrow> 'rt ecall \<Rightarrow> UINTN \<Rightarrow> UINTN \<Rightarrow> UINTN \<Rightarrow> UINTN \<Rightarrow> UINTN \<Rightarrow> UINTN \<Rightarrow> UINTN \<Rightarrow> UINTN
     \<Rightarrow> 'rt machine \<Rightarrow> sbiret \<times> 'rt machine" where
  "SbiCall cc ecall ext_id func_id arg0 arg1 arg2 arg3 arg4 arg5 s =
     (let r = \<lparr>a0 = arg0, a1 = arg1, a2 = arg2, a3 = arg3, a4 = arg4, a5 = arg5,
                a6 = func_id, a7 = ext_id\<rparr>;
          (r', m', rt') = ecall r (memory s) (runtime s)
      in (\<lparr>sbiret_error = a0 r', sbiret_value = (if rereads_a1 cc then a1 r' else arg1)\<rparr>,
          \<lparr>memory = m', ecalls = ecalls s @ [r], runtime = rt'\<rparr>))"

definition SbiCall0 ::
  "compiler \<Rightarrow> 'rt ecall \<Rightarrow> UINTN \<Rightarrow> UINTN \<Rightarrow> 'rt machine \<Rightarrow> sbiret \<times> 'rt machine" where
  "SbiCall0 cc ecall ext_id func_id = SbiCall cc ecall ext_id func_id 0 0 0 0 0 0"

definition SbiCall1 ::
  "compiler \<Rightarrow> 'rt ecall \<Rightarrow> UINTN \<Rightarrow> UINTN \<Rightarrow> UINTN \<Rightarrow> 'rt machine \<Rightarrow> sbiret \<times> 'rt machine" where
  "SbiCall1 cc ecall ext_id func_id arg0 = SbiCall cc ecall ext_id func_id arg0 0 0 0 0 0"

definition SbiCall2 ::
  "compiler \<Rightarrow> 'rt ecall \<Rightarrow> UINTN \<Rightarrow> UINTN \<Rightarrow> UINTN \<Rightarrow> UINTN \<Rightarrow> 'rt machine \<Rightarrow> sbiret \<times> 'rt machine" where
  "SbiCall2 cc ecall ext_id func_id arg0 arg1 = SbiCall cc ecall ext_id func_id arg0 arg1 0 0 0 0"

definition SbiCall3 ::
  "compiler \<Rightarrow> 'rt ecall \<Rightarrow> UINTN \<Rightarrow> UINTN \<Rightarrow> UINTN \<Rightarrow> UINTN \<Rightarrow> UINTN
     \<Rightarrow> 'rt machine \<Rightarrow> sbiret \<times> 'rt machine" where
  "SbiCall3 cc ecall ext_id func_id arg0 arg1 arg2 =
     SbiCall cc ecall ext_id func_id arg0 arg1 arg2 0 0 0"

definition SbiCall4 ::
  "compiler \<Rightarrow> 'rt ecall \<Rightarrow> UINTN \<Rightarrow> UINTN \<Rightarrow> UINTN \<Rightarrow> UINTN \<Rightarrow> UINTN \<Rightarrow> UINTN
     \<Rightarrow> 'rt machine \<Rightarrow> sbiret \<times> 'rt machine" where
  "SbiCall4 cc ecall ext_id func_id arg0 arg1 arg2 arg3 =
     SbiCall cc ecall ext_id func_id arg0 arg1 arg2 arg3 0 0"

definition SbiCall5 ::
  "compiler \<Rightarrow> 'rt ecall \<Rightarrow> UINTN \<Rightarrow> UINTN \<Rightarrow> UINTN \<Rightarrow> UINTN \<Rightarrow> UINTN \<Rightarrow> UINTN \<Rightarrow> UINTN
     \<Rightarrow> 'rt machine \<Rightarrow> sbiret \<times> 'rt machine" where
  "SbiCall5 cc ecall ext_id func_id arg0 arg1 arg2 arg3 arg4 =
     SbiCall cc ecall ext_id func_id arg0 arg1 arg2 arg3 arg4 0"

definition SbiCall6 ::
  "compiler \<Rightarrow> 'rt ecall \<Rightarrow> UINTN \<Rightarrow> UINTN \<Rightarrow> UINTN \<Rightarrow> UINTN \<Rightarrow> UINTN \<Rightarrow> UINTN \<Rightarrow> UINTN \<Rightarrow> UINTN
     \<Rightarrow> 'rt machine \<Rightarrow> sbiret \<times> 'rt machine" where
  "SbiCall6 cc ecall ext_id func_id arg0 arg1 arg2 arg3 arg4 arg5 =
     SbiCall cc ecall ext_id func_id arg0 arg1 arg2 arg3 arg4 arg5"

lemmas SbiCallN_defs =
  SbiCall0_def SbiCall1_def SbiCall2_def SbiCall3_def SbiCall4_def SbiCall5_def SbiCall6_def

subsection \<open>Identifiers taken from OpenSBI\<close>

text \<open>
  The library names its extension and function ids by macros of OpenSBI's
  \<^verbatim>\<open>sbi_ecall_interface.h\<close>, and reaches the firmware context through two
  structure fields of OpenSBI (\<^verbatim>\<open>platform_addr\<close> of \<^verbatim>\<open>struct sbi_scratch\<close>,
  \<^verbatim>\<open>firmware_context\<close> of \<^verbatim>\<open>struct sbi_platform\<close>). None of these headers is
  among the sources, so the value of each macro and the offset of each field is a
  parameter \<open>K\<close> of the functions below.
\<close>

datatype opensbi_macro =
    SBI_EXT_BASE
  | SBI_EXT_BASE_GET_SPEC_VERSION
  | SBI_EXT_BASE_GET_IMP_ID
  | SBI_EXT_BASE_GET_IMP_VERSION
  | SBI_EXT_BASE_PROBE_EXT
  | SBI_EXT_BASE_GET_MVENDORID
  | SBI_EXT_BASE_GET_MARCHID
  | SBI_EXT_BASE_GET_MIMPID
  | SBI_EXT_HSM
  | SBI_EXT_HSM_HART_START
  | SBI_EXT_HSM_HART_STOP
  | SBI_EXT_HSM_HART_GET_STATUS
  | SBI_EXT_TIME
  | SBI_EXT_TIME_SET_TIMER
  | SBI_EXT_IPI
  | SBI_EXT_IPI_SEND_IPI
  | SBI_EXT_RFENCE
  | SBI_EXT_RFENCE_REMOTE_FENCE_I
  | SBI_EXT_RFENCE_REMOTE_SFENCE_VMA
  | SBI_EXT_RFENCE_REMOTE_SFENCE_VMA_ASID
  | SBI_EXT_RFENCE_REMOTE_HFENCE_GVMA
  | SBI_EXT_RFENCE_REMOTE_HFENCE_GVMA_VMID
  | SBI_EXT_RFENCE_REMOTE_HFENCE_VVMA
  | SBI_EXT_RFENCE_REMOTE_HFENCE_VVMA_ASID
  | SBI_OPENSBI_IMPID
  | OFFSET_OF_platform_addr
  | OFFSET_OF_firmware_context

type_synonym opensbi = "opensbi_macro \<Rightarrow> UINTN"

text \<open>The firmware extension of \<^verbatim>\<open>RiscVEdk2SbiLib.h\<close>.\<close>

definition SBI_EXT_FIRMWARE_CODE_BASE_START :: UINTN where
  "SBI_EXT_FIRMWARE_CODE_BASE_START = 0x0A000000"

definition SBI_EDK2_FW_EXT :: "opensbi \<Rightarrow> UINTN" where
  "SBI_EDK2_FW_EXT K = SBI_EXT_FIRMWARE_CODE_BASE_START OR K SBI_OPENSBI_IMPID"

definition SBI_EXT_FW_MSCRATCH_FUNC :: UINTN where
  "SBI_EXT_FW_MSCRATCH_FUNC = 0"

definition SBI_EXT_FW_MSCRATCH_HARTID_FUNC :: UINTN where
  "SBI_EXT_FW_MSCRATCH_HARTID_FUNC = 1"

subsection \<open>Memory\<close>

text \<open>\<^verbatim>\<open>*p = v\<close> through a pointer \<open>p\<close>.\<close>

definition store :: "UINTN \<Rightarrow> UINTN \<Rightarrow> 'rt machine \<Rightarrow> 'rt machine" where
  "store p v s = s\<lparr>memory := (memory s)(p := v)\<rparr>"

text \<open>
  Modelled from the spec: \<^verbatim>\<open>sbi_platform_ptr\<close> is a macro of OpenSBI's
  \<^verbatim>\<open>sbi_platform.h\<close>, which is not among these sources. It reads the platform
  pointer held in a field of the scratch space.
\<close>

definition sbi_platform_ptr :: "opensbi \<Rightarrow> 'rt machine \<Rightarrow> UINTN \<Rightarrow> UINTN" where
  "sbi_platform_ptr K s ScratchSpace = memory s (ScratchSpace + K OFFSET_OF_platform_addr)"

subsection \<open>Base extension\<close>

text \<open>
  These seven functions are declared \<^verbatim>\<open>VOID\<close>: the model returns the machine only.
\<close>

definition SbiGetSpecVersion :: "opensbi \<Rightarrow> compiler \<Rightarrow> 'rt ecall \<Rightarrow> UINTN \<Rightarrow> 'rt machine \<Rightarrow> 'rt machine" where
  "SbiGetSpecVersion K cc ecall SpecVersion s =
     (let (ret, s') = SbiCall0 cc ecall (K SBI_EXT_BASE) (K SBI_EXT_BASE_GET_SPEC_VERSION) s
      in if sbiret_error ret = 0 then store SpecVersion (sbiret_value ret) s' else s')"

definition SbiGetImplId :: "opensbi \<Rightarrow> compiler \<Rightarrow> 'rt ecall \<Rightarrow> UINTN \<Rightarrow> 'rt machine \<Rightarrow> 'rt machine" where
  "SbiGetImplId K cc ecall ImplId s =
     (let (ret, s') = SbiCall0 cc ecall (K SBI_EXT_BASE) (K SBI_EXT_BASE_GET_IMP_ID) s
      in store ImplId (sbiret_value ret) s')"

definition SbiGetImplVersion :: "opensbi \<Rightarrow> compiler \<Rightarrow> 'rt ecall \<Rightarrow> UINTN \<Rightarrow> 'rt machine \<Rightarrow> 'rt machine" where
  "SbiGetImplVersion K cc ecall ImplVersion s =
     (let (ret, s') = SbiCall0 cc ecall (K SBI_EXT_BASE) (K SBI_EXT_BASE_GET_IMP_VERSION) s
      in store ImplVersion (sbiret_value ret) s')"

definition SbiProbeExtension ::
  "opensbi \<Rightarrow> compiler \<Rightarrow> 'rt ecall \<Rightarrow> UINTN \<Rightarrow> UINTN \<Rightarrow> 'rt machine \<Rightarrow> 'rt machine" where
  "SbiProbeExtension K cc ecall ExtensionId ProbeResult s =
     (let (ret, s') = SbiCall0 cc ecall (K SBI_EXT_BASE) (K SBI_EXT_BASE_PROBE_EXT) s
      in store ProbeResult (sbiret_value ret) s')"

definition SbiGetMvendorId :: "opensbi \<Rightarrow> compiler \<Rightarrow> 'rt ecall \<Rightarrow> UINTN \<Rightarrow> 'rt machine \<Rightarrow> 'rt machine" where
  "SbiGetMvendorId K cc ecall MvendorId s =
     (let (ret, s') = SbiCall0 cc ecall (K SBI_EXT_BASE) (K SBI_EXT_BASE_GET_MVENDORID) s
      in store MvendorId (sbiret_value ret) s')"

definition SbiGetMarchId :: "opensbi \<Rightarrow> compiler \<Rightarrow> 'rt ecall \<Rightarrow> UINTN \<Rightarrow> 'rt machine \<Rightarrow> 'rt machine" where
  "SbiGetMarchId K cc ecall MarchId s =
     (let (ret, s') = SbiCall0 cc ecall (K SBI_EXT_BASE) (K SBI_EXT_BASE_GET_MARCHID) s
      in store MarchId (sbiret_value ret) s')"

definition SbiGetMimpId :: "opensbi \<Rightarrow> compiler \<Rightarrow> 'rt ecall \<Rightarrow> UINTN \<Rightarrow> 'rt machine \<Rightarrow> 'rt machine" where
  "SbiGetMimpId K cc ecall MimpId s =
     (let (ret, s') = SbiCall0 cc ecall (K SBI_EXT_BASE) (K SBI_EXT_BASE_GET_MIMPID) s
      in store MimpId (sbiret_value ret) s')"

subsection \<open>Hart state management, timer, inter-processor interrupt\<close>

definition SbiHartStart ::
  "opensbi \<Rightarrow> compiler \<Rightarrow> 'rt ecall \<Rightarrow> UINTN \<Rightarrow> UINTN \<Rightarrow> UINTN \<Rightarrow> 'rt machine
     \<Rightarrow> (fault + EFI_STATUS) \<times> 'rt machine" where
  "SbiHartStart K cc ecall HartId StartAddr Priv s =
     (let (ret, s') = SbiCall3 cc ecall (K SBI_EXT_HSM) (K SBI_EXT_HSM_HART_START)
                        HartId StartAddr Priv s
      in (TranslateError (sbiret_error ret), s'))"

definition SbiHartStop ::
  "opensbi \<Rightarrow> compiler \<Rightarrow> 'rt ecall \<Rightarrow> 'rt machine \<Rightarrow> (fault + EFI_STATUS) \<times> 'rt machine" where
  "SbiHartStop K cc ecall s =
     (let (Ret, s') = SbiCall0 cc ecall (K SBI_EXT_HSM) (K SBI_EXT_HSM_HART_STOP) s
      in (TranslateError (sbiret_error Ret), s'))"

definition SbiHartGetStatus ::
  "opensbi \<Rightarrow> compiler \<Rightarrow> 'rt ecall \<Rightarrow> UINTN \<Rightarrow> UINTN \<Rightarrow> 'rt machine
     \<Rightarrow> (fault + EFI_STATUS) \<times> 'rt machine" where
  "SbiHartGetStatus K cc ecall HartId HartStatus s =
     (let (ret, s') = SbiCall1 cc ecall (K SBI_EXT_HSM) (K SBI_EXT_HSM_HART_GET_STATUS) HartId s;
          s'' = (if sbiret_error ret = 0 then store HartStatus (sbiret_value ret) s' else s')
      in (TranslateError (sbiret_error ret), s''))"

text \<open>\<^verbatim>\<open>SbiSetTimer\<close> is declared \<^verbatim>\<open>VOID\<close> and drops what \<^verbatim>\<open>SbiCall1\<close> returns.\<close>

definition SbiSetTimer :: "opensbi \<Rightarrow> compiler \<Rightarrow> 'rt ecall \<Rightarrow> UINTN \<Rightarrow> 'rt machine \<Rightarrow> 'rt machine" where
  "SbiSetTimer K cc ecall StimeValue s =
     snd (SbiCall1 cc ecall (K SBI_EXT_TIME) (K SBI_EXT_TIME_SET_TIMER) StimeValue s)"

definition SbiSendIpi ::
  "opensbi \<Rightarrow> compiler \<Rightarrow> 'rt ecall \<Rightarrow> UINTN \<Rightarrow> UINTN \<Rightarrow> 'rt machine
     \<Rightarrow> (fault + EFI_STATUS) \<times> 'rt machine" where
  "SbiSendIpi K cc ecall HartMask HartMaskBase s =
     (let (ret, s') = SbiCall2 cc ecall (K SBI_EXT_IPI) (K SBI_EXT_IPI_SEND_IPI)
                        HartMask HartMaskBase s
      in (TranslateError (sbiret_error ret), s'))"

subsection \<open>Remote fences\<close>

definition SbiRemoteFenceI ::
  "opensbi \<Rightarrow> compiler \<Rightarrow> 'rt ecall \<Rightarrow> UINTN \<Rightarrow> UINTN \<Rightarrow> 'rt machine
     \<Rightarrow> (fault + EFI_STATUS) \<times> 'rt machine" where
  "SbiRemoteFenceI K cc ecall HartMask HartMaskBase s =
     (let (ret, s') = SbiCall2 cc ecall (K SBI_EXT_RFENCE) (K SBI_EXT_RFENCE_REMOTE_FENCE_I)
                        HartMask HartMaskBase s
      in (TranslateError (sbiret_error ret), s'))"

definition SbiRemoteSfenceVma ::
  "opensbi \<Rightarrow> compiler \<Rightarrow> 'rt ecall \<Rightarrow> UINTN \<Rightarrow> UINTN \<Rightarrow> UINTN \<Rightarrow> UINTN \<Rightarrow> 'rt machine
     \<Rightarrow> (fault + EFI_STATUS) \<times> 'rt machine" where
  "SbiRemoteSfenceVma K cc ecall HartMask HartMaskBase StartAddr Size s =
     (let (ret, s') = SbiCall4 cc ecall (K SBI_EXT_RFENCE) (K SBI_EXT_RFENCE_REMOTE_SFENCE_VMA)
                        HartMask HartMaskBase StartAddr Size s
      in (TranslateError (sbiret_error ret), s'))"

definition SbiRemoteSfenceVmaAsid ::
  "opensbi \<Rightarrow> compiler \<Rightarrow> 'rt ecall \<Rightarrow> UINTN \<Rightarrow> UINTN \<Rightarrow> UINTN \<Rightarrow> UINTN \<Rightarrow> UINTN \<Rightarrow> 'rt machine
     \<Rightarrow> (fault + EFI_STATUS) \<times> 'rt machine" where
  "SbiRemoteSfenceVmaAsid K cc ecall HartMask HartMaskBase StartAddr Size Asid s =
     (let (ret, s') = SbiCall5 cc ecall (K SBI_EXT_RFENCE)
                        (K SBI_EXT_RFENCE_REMOTE_SFENCE_VMA_ASID)
                        HartMask HartMaskBase StartAddr Size Asid s
      in (TranslateError (sbiret_error ret), s'))"

definition SbiRemoteHFenceGvmaVmid ::
  "opensbi \<Rightarrow> compiler \<Rightarrow> 'rt ecall \<Rightarrow> UINTN \<Rightarrow> UINTN \<Rightarrow> UINTN \<Rightarrow> UINTN \<Rightarrow> UINTN \<Rightarrow> 'rt machine
     \<Rightarrow> (fault + EFI_STATUS) \<times> 'rt machine" where
  "SbiRemoteHFenceGvmaVmid K cc ecall HartMask HartMaskBase StartAddr Size Vmid s =
     (let (ret, s') = SbiCall5 cc ecall (K SBI_EXT_RFENCE)
                        (K SBI_EXT_RFENCE_REMOTE_HFENCE_GVMA)
                        HartMask HartMaskBase StartAddr Size Vmid s
      in (TranslateError (sbiret_error ret), s'))"

definition SbiRemoteHFenceGvma ::
  "opensbi \<Rightarrow> compiler \<Rightarrow> 'rt ecall \<Rightarrow> UINTN \<Rightarrow> UINTN \<Rightarrow> UINTN \<Rightarrow> UINTN \<Rightarrow> 'rt machine
     \<Rightarrow> (fault + EFI_STATUS) \<times> 'rt machine" where
  "SbiRemoteHFenceGvma K cc ecall HartMask HartMaskBase StartAddr Size s =
     (let (ret, s') = SbiCall4 cc ecall (K SBI_EXT_RFENCE)
                        (K SBI_EXT_RFENCE_REMOTE_HFENCE_GVMA_VMID)
                        HartMask HartMaskBase StartAddr Size s
      in (TranslateError (sbiret_error ret), s'))"

definition SbiRemoteHFenceVvmaAsid ::
  "opensbi \<Rightarrow> compiler \<Rightarrow> 'rt ecall \<Rightarrow> UINTN \<Rightarrow> UINTN \<Rightarrow> UINTN \<Rightarrow> UINTN \<Rightarrow> UINTN \<Rightarrow> 'rt machine
     \<Rightarrow> (fault + EFI_STATUS) \<times> 'rt machine" where
  "SbiRemoteHFenceVvmaAsid K cc ecall HartMask HartMaskBase StartAddr Size Asid s =
     (let (ret, s') = SbiCall5 cc ecall (K SBI_EXT_RFENCE)
                        (K SBI_EXT_RFENCE_REMOTE_HFENCE_VVMA)
                        HartMask HartMaskBase StartAddr Size Asid s
      in (TranslateError (sbiret_error ret), s'))"

definition SbiRemoteHFenceVvma ::
  "opensbi \<Rightarrow> compiler \<Rightarrow> 'rt ecall \<Rightarrow> UINTN \<Rightarrow> UINTN \<Rightarrow> UINTN \<Rightarrow> UINTN \<Rightarrow> 'rt machine
     \<Rightarrow> (fault + EFI_STATUS) \<times> 'rt machine" where
  "SbiRemoteHFenceVvma K cc ecall HartMask HartMaskBase StartAddr Size s =
     (let (ret, s') = SbiCall4 cc ecall (K SBI_EXT_RFENCE)
                        (K SBI_EXT_RFENCE_REMOTE_HFENCE_VVMA_ASID)
                        HartMask HartMaskBase StartAddr Size s
      in (TranslateError (sbiret_error ret), s'))"

subsection \<open>Vendor extension\<close>

text \<open>
  The variable arguments are \<open>Args\<close>: \<open>Args k\<close> is what the \<open>k\<close>-th
  evaluation of \<^verbatim>\<open>VA_ARG\<close> (counted from 0) yields. Below the number of arguments
  that the caller passed it is the caller's argument; the source makes no check, and
  beyond that number \<^verbatim>\<open>VA_ARG\<close> yields whatever the argument area holds.
  \<open>VA_ARG cc Args n i\<close> is the value of the \<open>i\<close>-th \<^verbatim>\<open>VA_ARG\<close> expression
  from the left in an argument list that holds \<open>n\<close> of them.
\<close>

definition VA_ARG :: "compiler \<Rightarrow> (nat \<Rightarrow> UINTN) \<Rightarrow> nat \<Rightarrow> nat \<Rightarrow> UINTN" where
  "VA_ARG cc Args n i = Args (va_arg_order cc n i)"

definition SbiVendorCall ::
  "compiler \<Rightarrow> 'rt ecall \<Rightarrow> UINTN \<Rightarrow> UINTN \<Rightarrow> UINTN \<Rightarrow> (nat \<Rightarrow> UINTN) \<Rightarrow> 'rt machine
     \<Rightarrow> (fault + EFI_STATUS) \<times> 'rt machine" where
  "SbiVendorCall cc ecall ExtensionId FunctionId NumArgs Args s =
     (case ASSERT (0x09000000 \<le> ExtensionId \<and> ExtensionId \<le> 0x09FFFFFF) of
        Inl f \<Rightarrow> (Inl f, s)
      | Inr _ \<Rightarrow>
          if NumArgs = 0 then
            (let (ret, s') = SbiCall0 cc ecall ExtensionId FunctionId s
             in (TranslateError (sbiret_error ret), s'))
          else if NumArgs = 1 then
            (let (ret, s') = SbiCall1 cc ecall ExtensionId FunctionId (Args 0) s
             in (TranslateError (sbiret_error ret), s'))
          else if NumArgs = 2 then
            (let (ret, s') = SbiCall2 cc ecall ExtensionId FunctionId
                               (VA_ARG cc Args 2 0) (VA_ARG cc Args 2 1) s
             in (TranslateError (sbiret_error ret), s'))
          else if NumArgs = 3 then
            (let (ret, s') = SbiCall3 cc ecall ExtensionId FunctionId
                               (VA_ARG cc Args 3 0) (VA_ARG cc Args 3 1) (VA_ARG cc Args 3 2) s
             in (TranslateError (sbiret_error ret), s'))
          else if NumArgs = 4 then
            (let (ret, s') = SbiCall4 cc ecall ExtensionId FunctionId
                               (VA_ARG cc Args 4 0) (VA_ARG cc Args 4 1) (VA_ARG cc Args 4 2)
                               (VA_ARG cc Args 4 3) s
             in (TranslateError (sbiret_error ret), s'))
          else if NumArgs = 5 then
            (let (ret, s') = SbiCall5 cc ecall ExtensionId FunctionId
                               (VA_ARG cc Args 5 0) (VA_ARG cc Args 5 1) (VA_ARG cc Args 5 2)
                               (VA_ARG cc Args 5 3) (VA_ARG cc Args 5 4) s
             in (TranslateError (sbiret_error ret), s'))
          else if NumArgs = 6 then
            (let (ret, s') = SbiCall6 cc ecall ExtensionId FunctionId
                               (VA_ARG cc Args 6 0) (VA_ARG cc Args 6 1) (VA_ARG cc Args 6 2)
                               (VA_ARG cc Args 6 3) (VA_ARG cc Args 6 4) (VA_ARG cc Args 6 5) s
             in (TranslateError (sbiret_error ret), s'))
          else (Inr EFI_INVALID_PARAMETER, s))"

subsection \<open>Firmware extension\<close>

text \<open>
  These four functions return \<^verbatim>\<open>EFI_SUCCESS\<close> without going through
  \<open>TranslateError\<close>, so they have no fatal path.
\<close>

definition SbiGetMscratch ::
  "opensbi \<Rightarrow> compiler \<Rightarrow> 'rt ecall \<Rightarrow> UINTN \<Rightarrow> 'rt machine \<Rightarrow> EFI_STATUS \<times> 'rt machine" where
  "SbiGetMscratch K cc ecall ScratchSpace s =
     (let (ret, s') = SbiCall0 cc ecall (SBI_EDK2_FW_EXT K) SBI_EXT_FW_MSCRATCH_FUNC s;
          s'' = (if sbiret_error ret = 0 then store ScratchSpace (sbiret_value ret) s' else s')
      in (EFI_SUCCESS, s''))"

definition SbiGetMscratchHartid ::
  "opensbi \<Rightarrow> compiler \<Rightarrow> 'rt ecall \<Rightarrow> UINTN \<Rightarrow> UINTN \<Rightarrow> 'rt machine \<Rightarrow> EFI_STATUS \<times> 'rt machine" where
  "SbiGetMscratchHartid K cc ecall HartId ScratchSpace s =
     (let (ret, s') = SbiCall1 cc ecall (SBI_EDK2_FW_EXT K) SBI_EXT_FW_MSCRATCH_HARTID_FUNC
                        HartId s;
          s'' = (if sbiret_error ret = 0 then store ScratchSpace (sbiret_value ret) s' else s')
      in (EFI_SUCCESS, s''))"

definition SbiGetFirmwareContext ::
  "opensbi \<Rightarrow> compiler \<Rightarrow> 'rt ecall \<Rightarrow> UINTN \<Rightarrow> 'rt machine \<Rightarrow> EFI_STATUS \<times> 'rt machine" where
  "SbiGetFirmwareContext K cc ecall FirmwareContext s =
     (let (ret, s') = SbiCall0 cc ecall (SBI_EDK2_FW_EXT K) SBI_EXT_FW_MSCRATCH_FUNC s;
          s'' = (if sbiret_error ret = 0 then
                   (let ScratchSpace = sbiret_value ret;
                        SbiPlatform = sbi_platform_ptr K s' ScratchSpace
                    in store FirmwareContext
                         (memory s' (SbiPlatform + K OFFSET_OF_firmware_context)) s')
                 else s')
      in (EFI_SUCCESS, s''))"

definition SbiSetFirmwareContext ::
  "opensbi \<Rightarrow> compiler \<Rightarrow> 'rt ecall \<Rightarrow> UINTN \<Rightarrow> 'rt machine \<Rightarrow> EFI_STATUS \<times> 'rt machine" where
  "SbiSetFirmwareContext K cc ecall FirmwareContext s =
     (let (ret, s') = SbiCall0 cc ecall (SBI_EDK2_FW_EXT K) SBI_EXT_FW_MSCRATCH_FUNC s;
          s'' = (if sbiret_error ret = 0 then
                   (let ScratchSpace = sbiret_value ret;
                        SbiPlatform = sbi_platform_ptr K s' ScratchSpace
                    in store (SbiPlatform + K OFFSET_OF_firmware_context) FirmwareContext s')
                 else s')
      in (EFI_SUCCESS, s''))"

subsection \<open>Reading an encoding back\<close>

text \<open>The six argument slots of a trap, and the pair that a trap returns.\<close>

definition arg_slots :: "regs \<Rightarrow> UINTN list" where
  "arg_slots r = [a0 r, a1 r, a2 r, a3 r, a4 r, a5 r]"

definition trap_result :: "'rt ecall \<Rightarrow> regs \<Rightarrow> 'rt machine \<Rightarrow> sbiret" where
  "trap_result ecall r s =
     (case ecall r (memory s) (runtime s) of
        (r', m', rt') \<Rightarrow> \<lparr>sbiret_error = a0 r', sbiret_value = a1 r'\<rparr>)"

text \<open>
  A call with the arguments \<open>args\<close> is encoded when exactly one trap is added, its
  argument slots are \<open>args\<close> followed by zeros, \<^verbatim>\<open>a6\<close> and \<^verbatim>\<open>a7\<close> hold the
  function and extension id, and the status returned is the one read back from the
  trap. Whether the value returned is the one read back is stated apart.
\<close>

definition encodes ::
  "'rt ecall \<Rightarrow> UINTN \<Rightarrow> UINTN \<Rightarrow> UINTN list \<Rightarrow> 'rt machine \<Rightarrow> sbiret \<times> 'rt machine \<Rightarrow> bool"
  where
  "encodes ecall ext_id func_id args s res =
     (let r = last (ecalls (snd res)) in
        ecalls (snd res) = ecalls s @ [r] \<and>
        arg_slots r = args @ replicate (6 - length args) 0 \<and>
        a6 r = func_id \<and> a7 r = ext_id \<and>
        sbiret_error (fst res) = sbiret_error (trap_result ecall r s))"

subsection \<open>A concrete runtime for evaluation\<close>

text \<open>
  One assignment of the identifiers: the extension ids are those the specification
  lists, the function ids count from 0 within each extension in the order of the
  datatype, and the implementation id and the two offsets are small numbers.
\<close>

fun example_ids :: opensbi where
  "example_ids SBI_EXT_BASE = 0x10"
| "example_ids SBI_EXT_BASE_GET_SPEC_VERSION = 0"
| "example_ids SBI_EXT_BASE_GET_IMP_ID = 1"
| "example_ids SBI_EXT_BASE_GET_IMP_VERSION = 2"
| "example_ids SBI_EXT_BASE_PROBE_EXT = 3"
| "example_ids SBI_EXT_BASE_GET_MVENDORID = 4"
| "example_ids SBI_EXT_BASE_GET_MARCHID = 5"
| "example_ids SBI_EXT_BASE_GET_MIMPID = 6"
| "example_ids SBI_EXT_HSM = 0x48534D"
| "example_ids SBI_EXT_HSM_HART_START = 0"
| "example_ids SBI_EXT_HSM_HART_STOP = 1"
| "example_ids SBI_EXT_HSM_HART_GET_STATUS = 2"
| "example_ids SBI_EXT_TIME = 0x54494D45"
| "example_ids SBI_EXT_TIME_SET_TIMER = 0"
| "example_ids SBI_EXT_IPI = 0x735049"
| "example_ids SBI_EXT_IPI_SEND_IPI = 0"
| "example_ids SBI_EXT_RFENCE = 0x52464E43"
| "example_ids SBI_EXT_RFENCE_REMOTE_FENCE_I = 0"
| "example_ids SBI_EXT_RFENCE_REMOTE_SFENCE_VMA = 1"
| "example_ids SBI_EXT_RFENCE_REMOTE_SFENCE_VMA_ASID = 2"
| "example_ids SBI_EXT_RFENCE_REMOTE_HFENCE_GVMA = 3"
| "example_ids SBI_EXT_RFENCE_REMOTE_HFENCE_GVMA_VMID = 4"
| "example_ids SBI_EXT_RFENCE_REMOTE_HFENCE_VVMA = 5"
| "example_ids SBI_EXT_RFENCE_REMOTE_HFENCE_VVMA_ASID = 6"
| "example_ids SBI_OPENSBI_IMPID = 1"
| "example_ids OFFSET_OF_platform_addr = 0x20"
| "example_ids OFFSET_OF_firmware_context = 0x48"

text \<open>
  Two compilers: one reads the register \<^verbatim>\<open>a1\<close> again after the trap and evaluates
  the arguments of a call from left to right; the other keeps \<^verbatim>\<open>a1\<close> as the input
  operand it was declared to be and evaluates the arguments from right to left.
\<close>

definition plain_cc :: compiler where
  "plain_cc = \<lparr>rereads_a1 = True, va_arg_order = (\<lambda>n i. i)\<rparr>"

definition folding_cc :: compiler where
  "folding_cc = \<lparr>rereads_a1 = False, va_arg_order = (\<lambda>n i. n - 1 - i)\<rparr>"

text \<open>An argument area that holds the variable arguments \<open>xs\<close>, and zeros after them.\<close>

definition va_area :: "UINTN list \<Rightarrow> nat \<Rightarrow> UINTN" where
  "va_area xs k = (if k < length xs then xs ! k else 0)"

text \<open>A machine with zeroed memory that has issued no trap yet.\<close>

definition boot_machine :: "unit machine" where
  "boot_machine = \<lparr>memory = (\<lambda>_. 0), ecalls = [], runtime = ()\<rparr>"

text \<open>
  Three runtimes. The first fails every call with \<^verbatim>\<open>SBI_ERR_FAILED\<close> and leaves 7
  in \<^verbatim>\<open>a1\<close>; the second accepts every call with value 7; the third implements the
  probe function of the base extension for a runtime that supports the base, the hart
  state management and the timer extension, and answers \<^verbatim>\<open>SBI_ERR_NOT_SUPPORTED\<close>
  to anything else.
\<close>

definition failing_ecall :: "unit ecall" where
  "failing_ecall r m rt = (r\<lparr>a0 := - 1, a1 := 7\<rparr>, m, rt)"

definition accepting_ecall :: "unit ecall" where
  "accepting_ecall r m rt = (r\<lparr>a0 := 0, a1 := 7\<rparr>, m, rt)"

definition probing_ecall :: "unit ecall" where
  "probing_ecall r m rt =
     (if a7 r = 0x10 \<and> a6 r = 3
      then r\<lparr>a0 := 0, a1 := (if a0 r \<in> {0x10, 0x48534D, 0x54494D45} then 1 else 0)\<rparr>
      else r\<lparr>a0 := - 2, a1 := 0\<rparr>,
      m, rt)"

text \<open>
  The runtime \<open>ecall\<close> with the registers it returns changed by \<open>g\<close>: the same
  effect on memory and on its own state, another answer.
\<close>

definition returning :: "(regs \<Rightarrow> regs) \<Rightarrow> 'rt ecall \<Rightarrow> 'rt ecall" where
  "returning g ecall r m rt = (case ecall r m rt of (r', m', rt') \<Rightarrow> (g r', m', rt'))"

section \<open>Properties\<close>

subsection \<open>Helper facts\<close>

lemma ASSERT_holds: "c \<Longrightarrow> ASSERT c = Inr ()"
  by (simp add: ASSERT_def)

lemma ASSERT_fails: "\<not> c \<Longrightarrow> ASSERT c = Inl ASSERT_FAILED"
  by (simp add: ASSERT_def)

lemma TranslateError_success_iff: "TranslateError e = Inr EFI_SUCCESS \<longleftrightarrow> e = 0"
  by (simp add: TranslateError_def sbi_status_defs ASSERT_def)

lemma SbiCall_ecalls:
  "ecalls (snd (SbiCall cc ecall e f x0 x1 x2 x3 x4 x5 s)) =
     ecalls s @ [\<lparr>a0 = x0, a1 = x1, a2 = x2, a3 = x3, a4 = x4, a5 = x5, a6 = f, a7 = e\<rparr>]"
  by (simp add: SbiCall_def Let_def split: prod.splits)

lemma SbiCall_status:
  "sbiret_error (fst (SbiCall cc ecall e f x0 x1 x2 x3 x4 x5 s)) =
     sbiret_error (trap_result ecall
       \<lparr>a0 = x0, a1 = x1, a2 = x2, a3 = x3, a4 = x4, a5 = x5, a6 = f, a7 = e\<rparr> s)"
  by (simp add: SbiCall_def trap_result_def Let_def split: prod.splits)

lemma SbiCall_value_reread:
  "sbiret_value (fst (SbiCall (cc\<lparr>rereads_a1 := True\<rparr>) ecall e f x0 x1 x2 x3 x4 x5 s)) =
     sbiret_value (trap_result ecall
       \<lparr>a0 = x0, a1 = x1, a2 = x2, a3 = x3, a4 = x4, a5 = x5, a6 = f, a7 = e\<rparr> s)"
  by (simp add: SbiCall_def trap_result_def Let_def split: prod.splits)

lemma SbiCall_value_kept:
  "sbiret_value (fst (SbiCall (cc\<lparr>rereads_a1 := False\<rparr>) ecall e f x0 x1 x2 x3 x4 x5 s)) = x1"
  by (simp add: SbiCall_def Let_def split: prod.splits)

lemma encodes_SbiCall:
  "length args \<le> 6 \<Longrightarrow>
   args @ replicate (6 - length args) 0 = [x0, x1, x2, x3, x4, x5] \<Longrightarrow>
   encodes ecall e f args s (SbiCall cc ecall e f x0 x1 x2 x3 x4 x5 s)"
  by (simp add: encodes_def SbiCall_ecalls SbiCall_status arg_slots_def Let_def)

lemma SbiCall0_encodes: "encodes ecall e f [] s (SbiCall0 cc ecall e f s)"
  unfolding SbiCall0_def by (rule encodes_SbiCall) (simp_all add: numeral_eq_Suc)

lemma SbiCall1_encodes: "encodes ecall e f [x0] s (SbiCall1 cc ecall e f x0 s)"
  unfolding SbiCall1_def by (rule encodes_SbiCall) (simp_all add: numeral_eq_Suc)

lemma SbiCall2_encodes: "encodes ecall e f [x0, x1] s (SbiCall2 cc ecall e f x0 x1 s)"
  unfolding SbiCall2_def by (rule encodes_SbiCall) (simp_all add: numeral_eq_Suc)

lemma SbiCall3_encodes: "encodes ecall e f [x0, x1, x2] s (SbiCall3 cc ecall e f x0 x1 x2 s)"
  unfolding SbiCall3_def by (rule encodes_SbiCall) (simp_all add: numeral_eq_Suc)

lemma SbiCall4_encodes:
  "encodes ecall e f [x0, x1, x2, x3] s (SbiCall4 cc ecall e f x0 x1 x2 x3 s)"
  unfolding SbiCall4_def by (rule encodes_SbiCall) (simp_all add: numeral_eq_Suc)

lemma SbiCall5_encodes:
  "encodes ecall e f [x0, x1, x2, x3, x4] s (SbiCall5 cc ecall e f x0 x1 x2 x3 x4 s)"
  unfolding SbiCall5_def by (rule encodes_SbiCall) (simp_all add: numeral_eq_Suc)

lemma SbiCall6_encodes:
  "encodes ecall e f [x0, x1, x2, x3, x4, x5] s (SbiCall6 cc ecall e f x0 x1 x2 x3 x4 x5 s)"
  unfolding SbiCall6_def by (rule encodes_SbiCall) (simp_all add: numeral_eq_Suc)

lemma too_many_args:
  fixes NumArgs :: UINTN
  assumes "6 < NumArgs"
  shows "NumArgs \<noteq> 0 \<and> NumArgs \<noteq> 1 \<and> NumArgs \<noteq> 2 \<and> NumArgs \<noteq> 3 \<and>
         NumArgs \<noteq> 4 \<and> NumArgs \<noteq> 5 \<and> NumArgs \<noteq> 6"
  using assms by auto

lemma SbiVendorCall_asserts:
  assumes "\<not> (0x09000000 \<le> ExtensionId \<and> ExtensionId \<le> 0x09FFFFFF)"
  shows "SbiVendorCall cc ecall ExtensionId FunctionId NumArgs Args s = (Inl ASSERT_FAILED, s)"
  unfolding SbiVendorCall_def ASSERT_fails [OF assms] by simp

lemma SbiVendorCall_too_many:
  assumes n: "6 < NumArgs" and r: "0x09000000 \<le> ExtensionId \<and> ExtensionId \<le> 0x09FFFFFF"
  shows "SbiVendorCall cc ecall ExtensionId FunctionId NumArgs Args s =
           (Inr EFI_INVALID_PARAMETER, s)"
  unfolding SbiVendorCall_def ASSERT_holds [OF r] using too_many_args [OF n] by simp

subsection \<open>The call encoder\<close>

text \<open>
  C10, evaluated on the code. For every number n of arguments from 0 to 6 and whatever
  the compiler, the macro \<open>SbiCalln\<close> issues one trap whose first n argument slots
  hold the n arguments and whose remaining slots hold zero, with the function id in
  \<^verbatim>\<open>a6\<close> and the extension id in \<^verbatim>\<open>a7\<close>, and the status it returns is the
  \<^verbatim>\<open>a0\<close> that the trap leaves. The value it returns is the \<^verbatim>\<open>a1\<close> that the
  trap leaves only under a compiler that reads the register again; under one that keeps
  \<^verbatim>\<open>a1\<close> as the input operand the \<^verbatim>\<open>asm\<close> statement declares, the value is the
  argument \<^verbatim>\<open>arg1\<close>: against a runtime that leaves 7 in \<^verbatim>\<open>a1\<close>,
  \<open>SbiCall0\<close> returns the value 0.
\<close>

theorem SbiCall_encoding:
  "encodes ecall e f [] s (SbiCall0 cc ecall e f s) \<and>
   encodes ecall e f [x0] s (SbiCall1 cc ecall e f x0 s) \<and>
   encodes ecall e f [x0, x1] s (SbiCall2 cc ecall e f x0 x1 s) \<and>
   encodes ecall e f [x0, x1, x2] s (SbiCall3 cc ecall e f x0 x1 x2 s) \<and>
   encodes ecall e f [x0, x1, x2, x3] s (SbiCall4 cc ecall e f x0 x1 x2 x3 s) \<and>
   encodes ecall e f [x0, x1, x2, x3, x4] s (SbiCall5 cc ecall e f x0 x1 x2 x3 x4 s) \<and>
   encodes ecall e f [x0, x1, x2, x3, x4, x5] s (SbiCall6 cc ecall e f x0 x1 x2 x3 x4 x5 s) \<and>
   sbiret_value (fst (SbiCall (cc\<lparr>rereads_a1 := True\<rparr>) ecall e f x0 x1 x2 x3 x4 x5 s)) =
     sbiret_value (trap_result ecall
       \<lparr>a0 = x0, a1 = x1, a2 = x2, a3 = x3, a4 = x4, a5 = x5, a6 = f, a7 = e\<rparr> s) \<and>
   sbiret_value (fst (SbiCall (cc\<lparr>rereads_a1 := False\<rparr>) ecall e f x0 x1 x2 x3 x4 x5 s)) = x1 \<and>
   sbiret_value (trap_result accepting_ecall
       \<lparr>a0 = 0, a1 = 0, a2 = 0, a3 = 0, a4 = 0, a5 = 0, a6 = 1, a7 = 0x10\<rparr> boot_machine) = 7 \<and>
   ecalls (snd (SbiCall0 folding_cc accepting_ecall 0x10 1 boot_machine)) =
     [\<lparr>a0 = 0, a1 = 0, a2 = 0, a3 = 0, a4 = 0, a5 = 0, a6 = 1, a7 = 0x10\<rparr>] \<and>
   sbiret_value (fst (SbiCall0 folding_cc accepting_ecall 0x10 1 boot_machine)) = 0"
proof -
  have t: "sbiret_value (trap_result accepting_ecall
       \<lparr>a0 = 0, a1 = 0, a2 = 0, a3 = 0, a4 = 0, a5 = 0, a6 = 1, a7 = 0x10\<rparr> boot_machine) = 7"
    by (simp add: trap_result_def accepting_ecall_def)
  have l: "ecalls (snd (SbiCall0 folding_cc accepting_ecall 0x10 1 boot_machine)) =
     [\<lparr>a0 = 0, a1 = 0, a2 = 0, a3 = 0, a4 = 0, a5 = 0, a6 = 1, a7 = 0x10\<rparr>]"
    by (simp add: SbiCall0_def SbiCall_ecalls boot_machine_def)
  have v: "sbiret_value (fst (SbiCall0 folding_cc accepting_ecall 0x10 1 boot_machine)) = 0"
    by (simp add: SbiCall0_def SbiCall_def folding_cc_def accepting_ecall_def Let_def)
  show ?thesis
    using t l v
    by (simp only: SbiCall0_encodes SbiCall1_encodes SbiCall2_encodes SbiCall3_encodes
          SbiCall4_encodes SbiCall5_encodes SbiCall6_encodes SbiCall_value_reread
          SbiCall_value_kept simp_thms)
qed

subsection \<open>The vendor call\<close>

text \<open>
  C7. For every \<open>ExtensionId\<close> outside the vendor range 0x09000000 to 0x09FFFFFF,
  \<open>SbiVendorCall\<close> stops at its assertion and issues no trap: the machine is
  unchanged.
\<close>

theorem SbiVendorCall_outside_vendor_range:
  "\<not> (0x09000000 \<le> ExtensionId \<and> ExtensionId \<le> 0x09FFFFFF) \<Longrightarrow>
     fst (SbiVendorCall cc ecall ExtensionId FunctionId NumArgs Args s) = Inl ASSERT_FAILED \<and>
     ecalls (snd (SbiVendorCall cc ecall ExtensionId FunctionId NumArgs Args s)) = ecalls s \<and>
     snd (SbiVendorCall cc ecall ExtensionId FunctionId NumArgs Args s) = s"
  by (simp add: SbiVendorCall_asserts)

theorem SbiVendorCall_outside_vendor_range_witness:
  "\<not> (0x09000000 \<le> (0x10 :: UINTN) \<and> (0x10 :: UINTN) \<le> 0x09FFFFFF) \<and>
   fst (SbiVendorCall plain_cc accepting_ecall 0x10 0 1 (va_area [5]) boot_machine) = Inl ASSERT_FAILED \<and>
   ecalls (snd (SbiVendorCall plain_cc accepting_ecall 0x10 0 1 (va_area [5]) boot_machine)) = [] \<and>
   snd (SbiVendorCall plain_cc accepting_ecall 0x10 0 1 (va_area [5]) boot_machine) = boot_machine"
proof -
  have h: "\<not> (0x09000000 \<le> (0x10 :: UINTN) \<and> (0x10 :: UINTN) \<le> 0x09FFFFFF)"
    by simp
  have e: "ecalls boot_machine = []"
    by (simp add: boot_machine_def)
  show ?thesis
    using h e SbiVendorCall_outside_vendor_range [OF h, of plain_cc accepting_ecall 0 1 "va_area [5]" boot_machine]
    by simp
qed

text \<open>
  C6. For every \<open>NumArgs\<close> greater than 6, \<open>SbiVendorCall\<close>, called with an
  \<open>ExtensionId\<close> in the vendor range 0x09000000 to 0x09FFFFFF as its precondition
  requires, returns \<open>EFI_INVALID_PARAMETER\<close> and issues no trap: the machine is
  unchanged.
\<close>

theorem SbiVendorCall_too_many_arguments:
  "6 < NumArgs \<Longrightarrow>
   0x09000000 \<le> ExtensionId \<and> ExtensionId \<le> 0x09FFFFFF \<Longrightarrow>
     fst (SbiVendorCall cc ecall ExtensionId FunctionId NumArgs Args s)
       = Inr EFI_INVALID_PARAMETER \<and>
     ecalls (snd (SbiVendorCall cc ecall ExtensionId FunctionId NumArgs Args s)) = ecalls s \<and>
     snd (SbiVendorCall cc ecall ExtensionId FunctionId NumArgs Args s) = s"
  by (simp add: SbiVendorCall_too_many)

theorem SbiVendorCall_too_many_arguments_witness:
  "(6 :: UINTN) < 7 \<and>
   (0x09000000 \<le> (0x09000001 :: UINTN) \<and> (0x09000001 :: UINTN) \<le> 0x09FFFFFF) \<and>
   fst (SbiVendorCall plain_cc accepting_ecall 0x09000001 0 7
          (va_area [1, 2, 3, 4, 5, 6, 7]) boot_machine) = Inr EFI_INVALID_PARAMETER \<and>
   ecalls (snd (SbiVendorCall plain_cc accepting_ecall 0x09000001 0 7
                  (va_area [1, 2, 3, 4, 5, 6, 7]) boot_machine)) = [] \<and>
   snd (SbiVendorCall plain_cc accepting_ecall 0x09000001 0 7
          (va_area [1, 2, 3, 4, 5, 6, 7]) boot_machine) = boot_machine"
proof -
  have h: "(6 :: UINTN) < 7" by simp
  have r: "0x09000000 \<le> (0x09000001 :: UINTN) \<and> (0x09000001 :: UINTN) \<le> 0x09FFFFFF"
    by simp
  have e: "ecalls boot_machine = []"
    by (simp add: boot_machine_def)
  show ?thesis
    using h r e SbiVendorCall_too_many_arguments
      [OF h r, of plain_cc accepting_ecall 0 "va_area [1, 2, 3, 4, 5, 6, 7]" boot_machine]
    by simp
qed

subsection \<open>The firmware extension\<close>

lemma SbiGetMscratch_frame:
  "fst (SbiGetMscratch K cc ecall p s) = EFI_SUCCESS \<and>
   (sbiret_error (fst (SbiCall0 cc ecall (SBI_EDK2_FW_EXT K) SBI_EXT_FW_MSCRATCH_FUNC s)) \<noteq> 0 \<longrightarrow>
      snd (SbiGetMscratch K cc ecall p s) =
        snd (SbiCall0 cc ecall (SBI_EDK2_FW_EXT K) SBI_EXT_FW_MSCRATCH_FUNC s))"
  by (simp add: SbiGetMscratch_def Let_def split: prod.splits)

lemma SbiGetMscratchHartid_frame:
  "fst (SbiGetMscratchHartid K cc ecall h p s) = EFI_SUCCESS \<and>
   (sbiret_error (fst (SbiCall1 cc ecall (SBI_EDK2_FW_EXT K) SBI_EXT_FW_MSCRATCH_HARTID_FUNC h s))
      \<noteq> 0 \<longrightarrow>
      snd (SbiGetMscratchHartid K cc ecall h p s) =
        snd (SbiCall1 cc ecall (SBI_EDK2_FW_EXT K) SBI_EXT_FW_MSCRATCH_HARTID_FUNC h s))"
  by (simp add: SbiGetMscratchHartid_def Let_def split: prod.splits)

lemma SbiGetFirmwareContext_frame:
  "fst (SbiGetFirmwareContext K cc ecall p s) = EFI_SUCCESS \<and>
   (sbiret_error (fst (SbiCall0 cc ecall (SBI_EDK2_FW_EXT K) SBI_EXT_FW_MSCRATCH_FUNC s)) \<noteq> 0 \<longrightarrow>
      snd (SbiGetFirmwareContext K cc ecall p s) =
        snd (SbiCall0 cc ecall (SBI_EDK2_FW_EXT K) SBI_EXT_FW_MSCRATCH_FUNC s))"
  by (simp add: SbiGetFirmwareContext_def Let_def split: prod.splits)

lemma SbiSetFirmwareContext_frame:
  "fst (SbiSetFirmwareContext K cc ecall c s) = EFI_SUCCESS \<and>
   (sbiret_error (fst (SbiCall0 cc ecall (SBI_EDK2_FW_EXT K) SBI_EXT_FW_MSCRATCH_FUNC s)) \<noteq> 0 \<longrightarrow>
      snd (SbiSetFirmwareContext K cc ecall c s) =
        snd (SbiCall0 cc ecall (SBI_EDK2_FW_EXT K) SBI_EXT_FW_MSCRATCH_FUNC s))"
  by (simp add: SbiSetFirmwareContext_def Let_def split: prod.splits)

lemma failing_ecall_fails:
  "sbiret_error (fst (SbiCall plain_cc failing_ecall e f x0 x1 x2 x3 x4 x5 s)) = - 1 \<and>
   sbiret_value (fst (SbiCall plain_cc failing_ecall e f x0 x1 x2 x3 x4 x5 s)) = 7 \<and>
   memory (snd (SbiCall plain_cc failing_ecall e f x0 x1 x2 x3 x4 x5 s)) = memory s"
  by (simp add: SbiCall_def plain_cc_def failing_ecall_def Let_def)

lemma accepting_ecall_accepts:
  "sbiret_error (fst (SbiCall plain_cc accepting_ecall e f x0 x1 x2 x3 x4 x5 s)) = 0 \<and>
   sbiret_value (fst (SbiCall plain_cc accepting_ecall e f x0 x1 x2 x3 x4 x5 s)) = 7 \<and>
   memory (snd (SbiCall plain_cc accepting_ecall e f x0 x1 x2 x3 x4 x5 s)) = memory s"
  by (simp add: SbiCall_def plain_cc_def accepting_ecall_def Let_def)

text \<open>
  C8. Whatever the trap returns, \<open>SbiGetMscratch\<close>, \<open>SbiGetMscratchHartid\<close>,
  \<open>SbiGetFirmwareContext\<close> and \<open>SbiSetFirmwareContext\<close> return \<open>EFI_SUCCESS\<close>;
  when the trap reports an error, the machine is left exactly as the trap left it: the
  output parameter is not written and no field of the platform structure is changed.
\<close>

theorem firmware_extension_always_succeeds:
  "fst (SbiGetMscratch K cc ecall p s) = EFI_SUCCESS \<and>
   fst (SbiGetMscratchHartid K cc ecall h p s) = EFI_SUCCESS \<and>
   fst (SbiGetFirmwareContext K cc ecall p s) = EFI_SUCCESS \<and>
   fst (SbiSetFirmwareContext K cc ecall c s) = EFI_SUCCESS \<and>
   (sbiret_error (fst (SbiCall0 cc ecall (SBI_EDK2_FW_EXT K) SBI_EXT_FW_MSCRATCH_FUNC s)) \<noteq> 0 \<longrightarrow>
      snd (SbiGetMscratch K cc ecall p s) =
        snd (SbiCall0 cc ecall (SBI_EDK2_FW_EXT K) SBI_EXT_FW_MSCRATCH_FUNC s) \<and>
      snd (SbiGetFirmwareContext K cc ecall p s) =
        snd (SbiCall0 cc ecall (SBI_EDK2_FW_EXT K) SBI_EXT_FW_MSCRATCH_FUNC s) \<and>
      snd (SbiSetFirmwareContext K cc ecall c s) =
        snd (SbiCall0 cc ecall (SBI_EDK2_FW_EXT K) SBI_EXT_FW_MSCRATCH_FUNC s)) \<and>
   (sbiret_error (fst (SbiCall1 cc ecall (SBI_EDK2_FW_EXT K) SBI_EXT_FW_MSCRATCH_HARTID_FUNC h s))
      \<noteq> 0 \<longrightarrow>
      snd (SbiGetMscratchHartid K cc ecall h p s) =
        snd (SbiCall1 cc ecall (SBI_EDK2_FW_EXT K) SBI_EXT_FW_MSCRATCH_HARTID_FUNC h s))"
  using SbiGetMscratch_frame [of K cc ecall p s] SbiGetMscratchHartid_frame [of K cc ecall h p s]
    SbiGetFirmwareContext_frame [of K cc ecall p s] SbiSetFirmwareContext_frame [of K cc ecall c s]
  by blast

theorem firmware_extension_always_succeeds_witness:
  "sbiret_error (fst (SbiCall0 plain_cc failing_ecall (SBI_EDK2_FW_EXT example_ids)
                        SBI_EXT_FW_MSCRATCH_FUNC boot_machine)) \<noteq> 0 \<and>
   sbiret_error (fst (SbiCall1 plain_cc failing_ecall (SBI_EDK2_FW_EXT example_ids)
                        SBI_EXT_FW_MSCRATCH_HARTID_FUNC 2 boot_machine)) \<noteq> 0 \<and>
   fst (SbiGetMscratch example_ids plain_cc failing_ecall 0x1000 boot_machine) = EFI_SUCCESS \<and>
   fst (SbiGetMscratchHartid example_ids plain_cc failing_ecall 2 0x1000 boot_machine) = EFI_SUCCESS \<and>
   fst (SbiGetFirmwareContext example_ids plain_cc failing_ecall 0x1000 boot_machine) = EFI_SUCCESS \<and>
   fst (SbiSetFirmwareContext example_ids plain_cc failing_ecall 0x2000 boot_machine) = EFI_SUCCESS \<and>
   memory (snd (SbiGetMscratch example_ids plain_cc failing_ecall 0x1000 boot_machine))
     = memory boot_machine \<and>
   memory (snd (SbiGetMscratchHartid example_ids plain_cc failing_ecall 2 0x1000 boot_machine))
     = memory boot_machine \<and>
   memory (snd (SbiGetFirmwareContext example_ids plain_cc failing_ecall 0x1000 boot_machine))
     = memory boot_machine \<and>
   memory (snd (SbiSetFirmwareContext example_ids plain_cc failing_ecall 0x2000 boot_machine))
     = memory boot_machine"
proof -
  have f0: "sbiret_error (fst (SbiCall0 plain_cc failing_ecall (SBI_EDK2_FW_EXT example_ids)
                                 SBI_EXT_FW_MSCRATCH_FUNC boot_machine)) \<noteq> 0"
    by (simp add: SbiCall0_def failing_ecall_fails)
  have f1: "sbiret_error (fst (SbiCall1 plain_cc failing_ecall (SBI_EDK2_FW_EXT example_ids)
                                 SBI_EXT_FW_MSCRATCH_HARTID_FUNC 2 boot_machine)) \<noteq> 0"
    by (simp add: SbiCall1_def failing_ecall_fails)
  have m0: "memory (snd (SbiCall0 plain_cc failing_ecall (SBI_EDK2_FW_EXT example_ids)
                           SBI_EXT_FW_MSCRATCH_FUNC boot_machine)) = memory boot_machine"
    by (simp add: SbiCall0_def failing_ecall_fails)
  have m1: "memory (snd (SbiCall1 plain_cc failing_ecall (SBI_EDK2_FW_EXT example_ids)
                           SBI_EXT_FW_MSCRATCH_HARTID_FUNC 2 boot_machine)) = memory boot_machine"
    by (simp add: SbiCall1_def failing_ecall_fails)
  show ?thesis
    using f0 f1 m0 m1
      firmware_extension_always_succeeds
        [of example_ids plain_cc failing_ecall "0x1000" boot_machine 2 "0x2000"]
    by simp
qed

subsection \<open>Wrappers with an output parameter\<close>

lemma SbiHartGetStatus_status:
  "fst (SbiHartGetStatus K cc ecall h p s) =
     TranslateError (sbiret_error (fst (SbiCall1 cc ecall (K SBI_EXT_HSM)
                                          (K SBI_EXT_HSM_HART_GET_STATUS) h s)))"
  by (simp add: SbiHartGetStatus_def Let_def split: prod.splits)

lemma SbiHartGetStatus_machine:
  "snd (SbiHartGetStatus K cc ecall h p s) =
     (if sbiret_error (fst (SbiCall1 cc ecall (K SBI_EXT_HSM) (K SBI_EXT_HSM_HART_GET_STATUS) h s)) = 0
      then store p
             (sbiret_value (fst (SbiCall1 cc ecall (K SBI_EXT_HSM) (K SBI_EXT_HSM_HART_GET_STATUS) h s)))
             (snd (SbiCall1 cc ecall (K SBI_EXT_HSM) (K SBI_EXT_HSM_HART_GET_STATUS) h s))
      else snd (SbiCall1 cc ecall (K SBI_EXT_HSM) (K SBI_EXT_HSM_HART_GET_STATUS) h s))"
  by (simp add: SbiHartGetStatus_def Let_def split: prod.splits)

lemma SbiGetSpecVersion_machine:
  "SbiGetSpecVersion K cc ecall p s =
     (if sbiret_error (fst (SbiCall0 cc ecall (K SBI_EXT_BASE) (K SBI_EXT_BASE_GET_SPEC_VERSION) s)) = 0
      then store p
             (sbiret_value (fst (SbiCall0 cc ecall (K SBI_EXT_BASE) (K SBI_EXT_BASE_GET_SPEC_VERSION) s)))
             (snd (SbiCall0 cc ecall (K SBI_EXT_BASE) (K SBI_EXT_BASE_GET_SPEC_VERSION) s))
      else snd (SbiCall0 cc ecall (K SBI_EXT_BASE) (K SBI_EXT_BASE_GET_SPEC_VERSION) s))"
  by (simp add: SbiGetSpecVersion_def Let_def split: prod.splits)

lemma base_getters_always_store:
  "SbiGetImplId K cc ecall p s =
     store p (sbiret_value (fst (SbiCall0 cc ecall (K SBI_EXT_BASE) (K SBI_EXT_BASE_GET_IMP_ID) s)))
       (snd (SbiCall0 cc ecall (K SBI_EXT_BASE) (K SBI_EXT_BASE_GET_IMP_ID) s))"
  "SbiGetImplVersion K cc ecall p s =
     store p (sbiret_value (fst (SbiCall0 cc ecall (K SBI_EXT_BASE) (K SBI_EXT_BASE_GET_IMP_VERSION) s)))
       (snd (SbiCall0 cc ecall (K SBI_EXT_BASE) (K SBI_EXT_BASE_GET_IMP_VERSION) s))"
  "SbiProbeExtension K cc ecall ExtensionId p s =
     store p (sbiret_value (fst (SbiCall0 cc ecall (K SBI_EXT_BASE) (K SBI_EXT_BASE_PROBE_EXT) s)))
       (snd (SbiCall0 cc ecall (K SBI_EXT_BASE) (K SBI_EXT_BASE_PROBE_EXT) s))"
  "SbiGetMvendorId K cc ecall p s =
     store p (sbiret_value (fst (SbiCall0 cc ecall (K SBI_EXT_BASE) (K SBI_EXT_BASE_GET_MVENDORID) s)))
       (snd (SbiCall0 cc ecall (K SBI_EXT_BASE) (K SBI_EXT_BASE_GET_MVENDORID) s))"
  "SbiGetMarchId K cc ecall p s =
     store p (sbiret_value (fst (SbiCall0 cc ecall (K SBI_EXT_BASE) (K SBI_EXT_BASE_GET_MARCHID) s)))
       (snd (SbiCall0 cc ecall (K SBI_EXT_BASE) (K SBI_EXT_BASE_GET_MARCHID) s))"
  "SbiGetMimpId K cc ecall p s =
     store p (sbiret_value (fst (SbiCall0 cc ecall (K SBI_EXT_BASE) (K SBI_EXT_BASE_GET_MIMPID) s)))
       (snd (SbiCall0 cc ecall (K SBI_EXT_BASE) (K SBI_EXT_BASE_GET_MIMPID) s))"
  by (simp_all add: SbiGetImplId_def SbiGetImplVersion_def SbiProbeExtension_def
        SbiGetMvendorId_def SbiGetMarchId_def SbiGetMimpId_def Let_def split: prod.splits)

lemma memory_store: "memory (store p v s) = (memory s)(p := v)"
  by (simp add: store_def)

text \<open>
  C4, as the code has it. \<open>SbiHartGetStatus\<close> returns the translated status of its
  call; when the call fails it leaves the machine as the trap left it (the output
  parameter is not written) and the status is not \<open>EFI_SUCCESS\<close>, and when the call
  succeeds it stores the call's value in the output parameter and returns
  \<open>EFI_SUCCESS\<close>. \<open>SbiGetSpecVersion\<close> writes its output parameter in the same two
  ways, and returns nothing. \<open>SbiGetImplId\<close>, \<open>SbiGetImplVersion\<close>,
  \<open>SbiProbeExtension\<close>, \<open>SbiGetMvendorId\<close>, \<open>SbiGetMarchId\<close> and
  \<open>SbiGetMimpId\<close> store the call's value in the output parameter whether the call
  failed or not, and return nothing.
\<close>

theorem output_parameter_wrappers:
  "fst (SbiHartGetStatus K cc ecall h p s) =
     TranslateError (sbiret_error (fst (SbiCall1 cc ecall (K SBI_EXT_HSM)
                                          (K SBI_EXT_HSM_HART_GET_STATUS) h s))) \<and>
   (sbiret_error (fst (SbiCall1 cc ecall (K SBI_EXT_HSM) (K SBI_EXT_HSM_HART_GET_STATUS) h s)) \<noteq> 0 \<longrightarrow>
      snd (SbiHartGetStatus K cc ecall h p s) =
        snd (SbiCall1 cc ecall (K SBI_EXT_HSM) (K SBI_EXT_HSM_HART_GET_STATUS) h s) \<and>
      fst (SbiHartGetStatus K cc ecall h p s) \<noteq> Inr EFI_SUCCESS) \<and>
   (sbiret_error (fst (SbiCall1 cc ecall (K SBI_EXT_HSM) (K SBI_EXT_HSM_HART_GET_STATUS) h s)) = 0 \<longrightarrow>
      snd (SbiHartGetStatus K cc ecall h p s) =
        store p
          (sbiret_value (fst (SbiCall1 cc ecall (K SBI_EXT_HSM) (K SBI_EXT_HSM_HART_GET_STATUS) h s)))
          (snd (SbiCall1 cc ecall (K SBI_EXT_HSM) (K SBI_EXT_HSM_HART_GET_STATUS) h s)) \<and>
      fst (SbiHartGetStatus K cc ecall h p s) = Inr EFI_SUCCESS) \<and>
   (sbiret_error (fst (SbiCall0 cc ecall (K SBI_EXT_BASE) (K SBI_EXT_BASE_GET_SPEC_VERSION) s)) \<noteq> 0 \<longrightarrow>
      SbiGetSpecVersion K cc ecall p s =
        snd (SbiCall0 cc ecall (K SBI_EXT_BASE) (K SBI_EXT_BASE_GET_SPEC_VERSION) s)) \<and>
   (sbiret_error (fst (SbiCall0 cc ecall (K SBI_EXT_BASE) (K SBI_EXT_BASE_GET_SPEC_VERSION) s)) = 0 \<longrightarrow>
      SbiGetSpecVersion K cc ecall p s =
        store p
          (sbiret_value (fst (SbiCall0 cc ecall (K SBI_EXT_BASE) (K SBI_EXT_BASE_GET_SPEC_VERSION) s)))
          (snd (SbiCall0 cc ecall (K SBI_EXT_BASE) (K SBI_EXT_BASE_GET_SPEC_VERSION) s))) \<and>
   SbiGetImplId K cc ecall p s =
     store p (sbiret_value (fst (SbiCall0 cc ecall (K SBI_EXT_BASE) (K SBI_EXT_BASE_GET_IMP_ID) s)))
       (snd (SbiCall0 cc ecall (K SBI_EXT_BASE) (K SBI_EXT_BASE_GET_IMP_ID) s)) \<and>
   SbiGetImplVersion K cc ecall p s =
     store p (sbiret_value (fst (SbiCall0 cc ecall (K SBI_EXT_BASE) (K SBI_EXT_BASE_GET_IMP_VERSION) s)))
       (snd (SbiCall0 cc ecall (K SBI_EXT_BASE) (K SBI_EXT_BASE_GET_IMP_VERSION) s)) \<and>
   SbiProbeExtension K cc ecall ExtensionId p s =
     store p (sbiret_value (fst (SbiCall0 cc ecall (K SBI_EXT_BASE) (K SBI_EXT_BASE_PROBE_EXT) s)))
       (snd (SbiCall0 cc ecall (K SBI_EXT_BASE) (K SBI_EXT_BASE_PROBE_EXT) s)) \<and>
   SbiGetMvendorId K cc ecall p s =
     store p (sbiret_value (fst (SbiCall0 cc ecall (K SBI_EXT_BASE) (K SBI_EXT_BASE_GET_MVENDORID) s)))
       (snd (SbiCall0 cc ecall (K SBI_EXT_BASE) (K SBI_EXT_BASE_GET_MVENDORID) s)) \<and>
   SbiGetMarchId K cc ecall p s =
     store p (sbiret_value (fst (SbiCall0 cc ecall (K SBI_EXT_BASE) (K SBI_EXT_BASE_GET_MARCHID) s)))
       (snd (SbiCall0 cc ecall (K SBI_EXT_BASE) (K SBI_EXT_BASE_GET_MARCHID) s)) \<and>
   SbiGetMimpId K cc ecall p s =
     store p (sbiret_value (fst (SbiCall0 cc ecall (K SBI_EXT_BASE) (K SBI_EXT_BASE_GET_MIMPID) s)))
       (snd (SbiCall0 cc ecall (K SBI_EXT_BASE) (K SBI_EXT_BASE_GET_MIMPID) s))"
proof -
  have hsm: "fst (SbiHartGetStatus K cc ecall h p s) = Inr EFI_SUCCESS \<longleftrightarrow>
      sbiret_error (fst (SbiCall1 cc ecall (K SBI_EXT_HSM) (K SBI_EXT_HSM_HART_GET_STATUS) h s)) = 0"
    by (simp only: SbiHartGetStatus_status TranslateError_success_iff)
  show ?thesis
    using hsm SbiHartGetStatus_status [of K cc ecall h p s]
      SbiHartGetStatus_machine [of K cc ecall h p s] SbiGetSpecVersion_machine [of K cc ecall p s]
    by (simp only: base_getters_always_store simp_thms if_True if_False split: if_splits)
qed

theorem output_parameter_wrappers_witness:
  "sbiret_error (fst (SbiCall1 plain_cc failing_ecall (example_ids SBI_EXT_HSM)
                        (example_ids SBI_EXT_HSM_HART_GET_STATUS) 2 boot_machine)) \<noteq> 0 \<and>
   memory (snd (SbiHartGetStatus example_ids plain_cc failing_ecall 2 0x1000 boot_machine)) 0x1000 = 0 \<and>
   fst (SbiHartGetStatus example_ids plain_cc failing_ecall 2 0x1000 boot_machine)
     = Inr EFI_DEVICE_ERROR \<and>
   sbiret_error (fst (SbiCall0 plain_cc failing_ecall (example_ids SBI_EXT_BASE)
                        (example_ids SBI_EXT_BASE_GET_SPEC_VERSION) boot_machine)) \<noteq> 0 \<and>
   memory (SbiGetSpecVersion example_ids plain_cc failing_ecall 0x1000 boot_machine) 0x1000 = 0 \<and>
   sbiret_error (fst (SbiCall1 plain_cc accepting_ecall (example_ids SBI_EXT_HSM)
                        (example_ids SBI_EXT_HSM_HART_GET_STATUS) 2 boot_machine)) = 0 \<and>
   memory (snd (SbiHartGetStatus example_ids plain_cc accepting_ecall 2 0x1000 boot_machine)) 0x1000 = 7 \<and>
   fst (SbiHartGetStatus example_ids plain_cc accepting_ecall 2 0x1000 boot_machine) = Inr EFI_SUCCESS \<and>
   sbiret_error (fst (SbiCall0 plain_cc accepting_ecall (example_ids SBI_EXT_BASE)
                        (example_ids SBI_EXT_BASE_GET_SPEC_VERSION) boot_machine)) = 0 \<and>
   memory (SbiGetSpecVersion example_ids plain_cc accepting_ecall 0x1000 boot_machine) 0x1000 = 7"
proof -
  have b: "memory boot_machine 0x1000 = 0"
    by (simp add: boot_machine_def)
  have t: "TranslateError (- 1) = Inr EFI_DEVICE_ERROR"
    by (simp add: TranslateError_def sbi_status_defs)
  have t0: "TranslateError 0 = Inr EFI_SUCCESS"
    by (simp add: TranslateError_def sbi_status_defs)
  show ?thesis
    using b t t0
      output_parameter_wrappers [of example_ids plain_cc failing_ecall 2 "0x1000" boot_machine "0x10"]
      output_parameter_wrappers [of example_ids plain_cc accepting_ecall 2 "0x1000" boot_machine "0x10"]
    by (simp add: SbiCall0_def SbiCall1_def failing_ecall_fails accepting_ecall_accepts
          memory_store)
qed

text \<open>
  C4 as stated fails: against a runtime that fails the call, \<open>SbiGetImplId\<close> still
  overwrites its output parameter (here the word at 0x1000, from 0 to 7).
\<close>

theorem output_parameter_wrappers_counterexample:
  "sbiret_error (fst (SbiCall0 plain_cc failing_ecall (example_ids SBI_EXT_BASE)
                        (example_ids SBI_EXT_BASE_GET_IMP_ID) boot_machine)) \<noteq> 0 \<and>
   memory boot_machine 0x1000 = 0 \<and>
   memory (SbiGetImplId example_ids plain_cc failing_ecall 0x1000 boot_machine) 0x1000 = 7"
  by (simp add: SbiGetImplId_def SbiCall0_def SbiCall_def plain_cc_def failing_ecall_def boot_machine_def
        store_def Let_def)

subsection \<open>The timer\<close>

lemma SbiCall_drops_registers:
  "snd (SbiCall cc (returning g ecall) e f x0 x1 x2 x3 x4 x5 s) =
   snd (SbiCall cc ecall e f x0 x1 x2 x3 x4 x5 s)"
  by (simp add: SbiCall_def returning_def Let_def split: prod.splits)

text \<open>
  C9, as the code has it. \<open>SbiSetTimer\<close> issues one trap, the set-timer function of
  the timer extension with \<open>StimeValue\<close> as its only argument, and hands nothing back
  to its caller: the machine is left as the trap left it, and whatever the trap put in
  the registers, the status included, is dropped (a runtime that returns other registers, \<open>returning g\<close>,
  makes no difference).
\<close>

theorem SbiSetTimer_drops_status:
  "ecalls (SbiSetTimer K cc ecall StimeValue s) =
     ecalls s @ [\<lparr>a0 = StimeValue, a1 = 0, a2 = 0, a3 = 0, a4 = 0, a5 = 0,
                  a6 = K SBI_EXT_TIME_SET_TIMER, a7 = K SBI_EXT_TIME\<rparr>] \<and>
   SbiSetTimer K cc ecall StimeValue s =
     snd (SbiCall1 cc ecall (K SBI_EXT_TIME) (K SBI_EXT_TIME_SET_TIMER) StimeValue s) \<and>
   SbiSetTimer K cc (returning g ecall) StimeValue s = SbiSetTimer K cc ecall StimeValue s"
  by (simp add: SbiSetTimer_def SbiCall1_def SbiCall_ecalls SbiCall_drops_registers)

text \<open>
  C9 as stated fails: the timer call fails against one runtime and succeeds against
  another, and \<open>SbiSetTimer\<close> leaves its caller with the same result in both cases.
\<close>

theorem SbiSetTimer_reports_status_counterexample:
  "sbiret_error (fst (SbiCall1 plain_cc failing_ecall (example_ids SBI_EXT_TIME)
                        (example_ids SBI_EXT_TIME_SET_TIMER) 5 boot_machine)) \<noteq> 0 \<and>
   sbiret_error (fst (SbiCall1 plain_cc accepting_ecall (example_ids SBI_EXT_TIME)
                        (example_ids SBI_EXT_TIME_SET_TIMER) 5 boot_machine)) = 0 \<and>
   SbiSetTimer example_ids plain_cc failing_ecall 5 boot_machine =
     SbiSetTimer example_ids plain_cc accepting_ecall 5 boot_machine"
  by (simp add: SbiSetTimer_def SbiCall1_def SbiCall_def failing_ecall_def accepting_ecall_def
        boot_machine_def Let_def)

subsection \<open>The remote fences\<close>

lemma SbiCall4_a6: "a6 (last (ecalls (snd (SbiCall4 cc ecall e f x0 x1 x2 x3 s)))) = f"
  by (simp add: SbiCall4_def SbiCall_ecalls)

lemma SbiCall5_a6: "a6 (last (ecalls (snd (SbiCall5 cc ecall e f x0 x1 x2 x3 x4 s)))) = f"
  by (simp add: SbiCall5_def SbiCall_ecalls)

lemma SbiCall4_a4: "a4 (last (ecalls (snd (SbiCall4 cc ecall e f x0 x1 x2 x3 s)))) = 0"
  by (simp add: SbiCall4_def SbiCall_ecalls)

lemma SbiCall5_a4: "a4 (last (ecalls (snd (SbiCall5 cc ecall e f x0 x1 x2 x3 x4 s)))) = x4"
  by (simp add: SbiCall5_def SbiCall_ecalls)

text \<open>
  C5, evaluated on the code. The function id that each wrapper of the remote-fence
  family puts in \<^verbatim>\<open>a6\<close>: the two \<^verbatim>\<open>SFENCE.VMA\<close> wrappers use the macro of
  their own variant, while each of the four hypervisor wrappers uses the macro of its
  counterpart. \<open>SbiRemoteHFenceGvmaVmid\<close> passes its \<open>Vmid\<close> in \<^verbatim>\<open>a4\<close> under the
  function id \<^verbatim>\<open>SBI_EXT_RFENCE_REMOTE_HFENCE_GVMA\<close>, and \<open>SbiRemoteHFenceGvma\<close>
  passes no id under \<^verbatim>\<open>SBI_EXT_RFENCE_REMOTE_HFENCE_GVMA_VMID\<close>; likewise for
  \<open>SbiRemoteHFenceVvmaAsid\<close> and \<open>SbiRemoteHFenceVvma\<close>.
\<close>

theorem remote_fence_function_ids:
  "a6 (last (ecalls (snd (SbiRemoteSfenceVma K cc ecall HartMask HartMaskBase StartAddr Size s))))
     = K SBI_EXT_RFENCE_REMOTE_SFENCE_VMA \<and>
   a6 (last (ecalls (snd (SbiRemoteSfenceVmaAsid K cc ecall HartMask HartMaskBase StartAddr Size Ident s))))
     = K SBI_EXT_RFENCE_REMOTE_SFENCE_VMA_ASID \<and>
   a6 (last (ecalls (snd (SbiRemoteHFenceGvmaVmid K cc ecall HartMask HartMaskBase StartAddr Size Ident s))))
     = K SBI_EXT_RFENCE_REMOTE_HFENCE_GVMA \<and>
   a4 (last (ecalls (snd (SbiRemoteHFenceGvmaVmid K cc ecall HartMask HartMaskBase StartAddr Size Ident s))))
     = Ident \<and>
   a6 (last (ecalls (snd (SbiRemoteHFenceGvma K cc ecall HartMask HartMaskBase StartAddr Size s))))
     = K SBI_EXT_RFENCE_REMOTE_HFENCE_GVMA_VMID \<and>
   a4 (last (ecalls (snd (SbiRemoteHFenceGvma K cc ecall HartMask HartMaskBase StartAddr Size s)))) = 0 \<and>
   a6 (last (ecalls (snd (SbiRemoteHFenceVvmaAsid K cc ecall HartMask HartMaskBase StartAddr Size Ident s))))
     = K SBI_EXT_RFENCE_REMOTE_HFENCE_VVMA \<and>
   a4 (last (ecalls (snd (SbiRemoteHFenceVvmaAsid K cc ecall HartMask HartMaskBase StartAddr Size Ident s))))
     = Ident \<and>
   a6 (last (ecalls (snd (SbiRemoteHFenceVvma K cc ecall HartMask HartMaskBase StartAddr Size s))))
     = K SBI_EXT_RFENCE_REMOTE_HFENCE_VVMA_ASID \<and>
   a4 (last (ecalls (snd (SbiRemoteHFenceVvma K cc ecall HartMask HartMaskBase StartAddr Size s)))) = 0"
  by (simp add: SbiRemoteSfenceVma_def SbiRemoteSfenceVmaAsid_def SbiRemoteHFenceGvmaVmid_def
        SbiRemoteHFenceGvma_def SbiRemoteHFenceVvmaAsid_def SbiRemoteHFenceVvma_def
        SbiCall4_a6 SbiCall5_a6 SbiCall4_a4 SbiCall5_a4 Let_def split_beta)

subsection \<open>Probing an extension\<close>

text \<open>
  C2, evaluated on the code. \<open>SbiProbeExtension\<close> never passes \<open>ExtensionId\<close> to
  the runtime: the result is the same for any two extension ids. Against a runtime that
  supports the hart state management extension 0x48534D (a probe with that id in
  \<^verbatim>\<open>a0\<close> answers 1), \<open>SbiProbeExtension\<close> of 0x48534D traps with 0 in \<^verbatim>\<open>a0\<close>
  and writes 0, "not supported", over the 0xAA held by its output parameter.
\<close>

theorem SbiProbeExtension_ignores_ExtensionId:
  "SbiProbeExtension K cc ecall ExtensionId ProbeResult s =
     SbiProbeExtension K cc ecall ExtensionId' ProbeResult s \<and>
   sbiret_error (fst (SbiCall1 plain_cc probing_ecall (example_ids SBI_EXT_BASE)
                        (example_ids SBI_EXT_BASE_PROBE_EXT) 0x48534D
                        (store 0x1000 0xAA boot_machine))) = 0 \<and>
   sbiret_value (fst (SbiCall1 plain_cc probing_ecall (example_ids SBI_EXT_BASE)
                        (example_ids SBI_EXT_BASE_PROBE_EXT) 0x48534D
                        (store 0x1000 0xAA boot_machine))) = 1 \<and>
   ecalls (SbiProbeExtension example_ids plain_cc probing_ecall 0x48534D 0x1000
             (store 0x1000 0xAA boot_machine)) =
     [\<lparr>a0 = 0, a1 = 0, a2 = 0, a3 = 0, a4 = 0, a5 = 0, a6 = 3, a7 = 0x10\<rparr>] \<and>
   memory (SbiProbeExtension example_ids plain_cc probing_ecall 0x48534D 0x1000
             (store 0x1000 0xAA boot_machine)) 0x1000 = 0"
  by (simp add: SbiProbeExtension_def SbiCall0_def SbiCall1_def SbiCall_def plain_cc_def probing_ecall_def
        boot_machine_def store_def Let_def)

subsection \<open>The error translator\<close>

text \<open>
  C1. For each of the seven defined status codes 0, -1, ..., -6, \<open>TranslateError\<close>
  returns the matching status: \<open>EFI_SUCCESS\<close>, \<open>EFI_DEVICE_ERROR\<close>,
  \<open>EFI_UNSUPPORTED\<close>, \<open>EFI_INVALID_PARAMETER\<close>, \<open>EFI_ACCESS_DENIED\<close>,
  \<open>EFI_LOAD_ERROR\<close>, \<open>EFI_ALREADY_STARTED\<close>.
\<close>

theorem TranslateError_defined_codes:
  "TranslateError 0 = Inr EFI_SUCCESS \<and>
   TranslateError (- 1) = Inr EFI_DEVICE_ERROR \<and>
   TranslateError (- 2) = Inr EFI_UNSUPPORTED \<and>
   TranslateError (- 3) = Inr EFI_INVALID_PARAMETER \<and>
   TranslateError (- 4) = Inr EFI_ACCESS_DENIED \<and>
   TranslateError (- 5) = Inr EFI_LOAD_ERROR \<and>
   TranslateError (- 6) = Inr EFI_ALREADY_STARTED"
  by (simp add: TranslateError_def sbi_status_defs)

text \<open>
  C3. For every status value outside the seven defined codes the translator stops with
  a failed assertion; it returns no status at all, so the value is not turned into one
  of the known ones.
\<close>

theorem TranslateError_unknown_code:
  "SbiError \<notin> {0, - 1, - 2, - 3, - 4, - 5, - 6} \<Longrightarrow>
     TranslateError SbiError = Inl ASSERT_FAILED \<and>
     (\<forall>st. TranslateError SbiError \<noteq> Inr st)"
  by (simp add: TranslateError_def sbi_status_defs ASSERT_def)

theorem TranslateError_unknown_code_witness:
  "(- 7 :: UINTN) \<notin> {0, - 1, - 2, - 3, - 4, - 5, - 6} \<and>
   TranslateError (- 7) = Inl ASSERT_FAILED \<and>
   (\<forall>st. TranslateError (- 7) \<noteq> Inr st)"
proof -
  have h: "(- 7 :: UINTN) \<notin> {0, - 1, - 2, - 3, - 4, - 5, - 6}" by simp
  show ?thesis using h TranslateError_unknown_code [OF h] by simp
qed

end
